theory Spec2Isabelle
  imports Complex_Main "HOL-Library.Sublist"
begin

section \<open>Conventions of the embedding\<close>

text \<open>
  The development embeds three Python modules of the honeypot: \<^verbatim>\<open>agents/policy.py\<close>,
  \<^verbatim>\<open>agents/persona.py\<close> and the per-turn logic of \<^verbatim>\<open>agents/honeypot_agent.py\<close>.

  \<^item> Python \<^verbatim>\<open>int\<close> is \<open>int\<close>. A Python \<^verbatim>\<open>float\<close> that the code only compares or
    subtracts from a clock reading (the confidence, the thresholds, the two times) is the
    real number it denotes. The floats of \<^verbatim>\<open>should_ask_extraction_question\<close>, whose
    result depends on rounding, are binary64 values with the arithmetic rounded to
    nearest, ties to even. The exponent range of binary64 is not modelled: the arithmetic
    is that of the code as long as no value reaches \<open>2 ^ 1024\<close> in magnitude, which holds
    when the counters of a persona stay below \<open>2 ^ 1023\<close>.
  \<^item> Python \<^verbatim>\<open>str\<close> is \<open>string\<close>; \<^verbatim>\<open>lower()\<close> is modelled on the ASCII letters.
  \<^item> A mutated object is passed in and returned; the dictionary of personas is a map,
    and a persona mutated through a reference is written back under its key.
  \<^item> Every source of nondeterminism is an input: the draws of \<^verbatim>\<open>random\<close>, the two
    clock readings, the fresh UUID and the outcome of each call to the text model.
  \<^item> Logging, the prompt text handed to the model, the \<^verbatim>\<open>_last_model_used\<close> marker and
    the \<^verbatim>\<open>notes\<close> summary of a result do not influence any value modelled here and
    are left out.
\<close>

section \<open>Strings\<close>

definition digit_char :: "nat \<Rightarrow> char" where
  "digit_char d = ''0123456789'' ! d"

fun str_nat :: "nat \<Rightarrow> string" where
  "str_nat n = (if n < 10 then [digit_char n] else str_nat (n div 10) @ [digit_char (n mod 10)])"

declare str_nat.simps [simp del]

text \<open>\<^verbatim>\<open>str(n)\<close> of a Python integer, as an f-string renders it.\<close>

definition str_int :: "int \<Rightarrow> string" where
  "str_int i = (if i < 0 then CHR ''-'' # str_nat (nat (- i)) else str_nat (nat i))"

text \<open>The characters below 256 that \<^verbatim>\<open>str.isspace\<close> accepts.\<close>

definition is_space :: "char \<Rightarrow> bool" where
  "is_space c = ((of_char c :: nat) \<in> {9, 10, 11, 12, 13, 28, 29, 30, 31, 32, 133, 160})"

definition strip :: "string \<Rightarrow> string" where
  "strip s = rev (dropWhile is_space (rev (dropWhile is_space s)))"

text \<open>\<^verbatim>\<open>s.rstrip(".")\<close>\<close>

definition rstrip_dot :: "string \<Rightarrow> string" where
  "rstrip_dot s = rev (dropWhile (\<lambda>c. c = CHR ''.'') (rev s))"

text \<open>
  \<^verbatim>\<open>lower()\<close> on the letters A to Z; every other character is left as it is (a character
  outside ASCII is not a letter of an ASCII word before or after lowering).
\<close>

definition lower_char :: "char \<Rightarrow> char" where
  "lower_char c =
     (case map_of (zip ''ABCDEFGHIJKLMNOPQRSTUVWXYZ'' ''abcdefghijklmnopqrstuvwxyz'') c of
        None \<Rightarrow> c
      | Some d \<Rightarrow> d)"

definition lower :: "string \<Rightarrow> string" where
  "lower s = map lower_char s"

text \<open>\<^verbatim>\<open>random.choice(xs)\<close> on a non-empty list; \<open>r\<close> is the raw draw.\<close>

definition choice :: "'a list \<Rightarrow> nat \<Rightarrow> 'a" where
  "choice xs r = xs ! (r mod length xs)"

section \<open>Binary floating point\<close>

text \<open>A binary64 value \<open>m * 2 ^ e\<close>, as its mantissa \<open>m\<close> and its exponent \<open>e\<close>.\<close>

datatype double = Double int int

definition pow2 :: "int \<Rightarrow> real" where
  "pow2 e = (if e \<ge> 0 then 2 ^ nat e else 1 / 2 ^ nat (- e))"

fun double_val :: "double \<Rightarrow> real" where
  "double_val (Double m e) = real_of_int m * pow2 e"

text \<open>\<^verbatim>\<open>n.bit_length()\<close> of a non-negative integer.\<close>

function bit_length :: "int \<Rightarrow> nat" where
  "bit_length n = (if n \<le> 0 then 0 else Suc (bit_length (n div 2)))"
  by pat_completeness auto
termination
  by (relation "measure nat") auto

declare bit_length.simps [simp del]

text \<open>\<open>m / 2 ^ k\<close> rounded to the nearest integer, a tie to the even one.\<close>

definition round_half_even :: "int \<Rightarrow> nat \<Rightarrow> int" where
  "round_half_even m k =
     (let q = m div 2 ^ k; r = m mod 2 ^ k
      in if 2 * r < 2 ^ k then q
         else if 2 * r > 2 ^ k then q + 1
         else if even q then q else q + 1)"

text \<open>The exact value \<open>m * 2 ^ e\<close> rounded to the 53 bits of a binary64 mantissa.\<close>

definition round53 :: "int \<Rightarrow> int \<Rightarrow> double" where
  "round53 m e =
     (let n = bit_length \<bar>m\<bar>
      in if n \<le> 53 then Double m e
         else Double (round_half_even m (n - 53)) (e + int (n - 53)))"

fun float_mul :: "double \<Rightarrow> double \<Rightarrow> double" where
  "float_mul (Double m1 e1) (Double m2 e2) = round53 (m1 * m2) (e1 + e2)"

fun float_add :: "double \<Rightarrow> double \<Rightarrow> double" where
  "float_add (Double m1 e1) (Double m2 e2) =
     (let e = min e1 e2 in round53 (m1 * 2 ^ nat (e1 - e) + m2 * 2 ^ nat (e2 - e)) e)"

fun float_sub :: "double \<Rightarrow> double \<Rightarrow> double" where
  "float_sub (Double m1 e1) (Double m2 e2) =
     (let e = min e1 e2 in round53 (m1 * 2 ^ nat (e1 - e) - m2 * 2 ^ nat (e2 - e)) e)"

text \<open>The conversion of an \<^verbatim>\<open>int\<close> operand of a float operation.\<close>

definition float_of_int :: "int \<Rightarrow> double" where
  "float_of_int i = round53 i 0"

text \<open>\<^verbatim>\<open>min(a, b)\<close> of two floats: \<open>b\<close> when it is smaller, else \<open>a\<close>.\<close>

definition py_min :: "double \<Rightarrow> double \<Rightarrow> double" where
  "py_min a b = (if double_val b < double_val a then b else a)"

text \<open>
  The double a decimal literal with the value \<open>n / d\<close> denotes (\<open>d\<close> positive): the
  quotient, correctly rounded. \<^verbatim>\<open>0.15\<close> is \<open>float_literal 15 100\<close>.
\<close>

definition float_literal :: "int \<Rightarrow> int \<Rightarrow> double" where
  "float_literal n d =
     (if n = 0 then Double 0 0
      else
        (let s = int (bit_length d) + 55 - int (bit_length \<bar>n\<bar>);
             num = (if s \<ge> 0 then \<bar>n\<bar> * 2 ^ nat s else \<bar>n\<bar>);
             den = (if s \<ge> 0 then d else d * 2 ^ nat (- s));
             sticky = (if num mod den = 0 then 0 else 1)
         in round53 (sgn n * (2 * (num div den) + sticky)) (- s - 1)))"

section \<open>Engagement policy (policy.py)\<close>

datatype engagement_mode = NONE | CAUTIOUS | AGGRESSIVE

record engagement_state =
  mode :: engagement_mode
  turn_count :: int
  duration_seconds :: int
  intelligence_complete :: bool
  scammer_suspicious :: bool
  turns_since_new_info :: int

text \<open>
  The five values \<^verbatim>\<open>EngagementPolicy.__init__\<close> reads from \<^verbatim>\<open>config.settings\<close>, a module
  that is not part of the sources: they are parameters here.
\<close>

record settings =
  cautious_confidence_threshold :: real
  aggressive_confidence_threshold :: real
  max_engagement_turns_cautious :: int
  max_engagement_turns_aggressive :: int
  max_engagement_duration_seconds :: int

record engagement_policy =
  cautious_threshold :: real
  aggressive_threshold :: real
  max_turns_cautious :: int
  max_turns_aggressive :: int
  max_duration_seconds :: int
  stale_turn_threshold :: int

definition EngagementPolicy_init :: "settings \<Rightarrow> engagement_policy" where
  "EngagementPolicy_init s =
     \<lparr> cautious_threshold = cautious_confidence_threshold s,
       aggressive_threshold = aggressive_confidence_threshold s,
       max_turns_cautious = max_engagement_turns_cautious s,
       max_turns_aggressive = max_engagement_turns_aggressive s,
       max_duration_seconds = max_engagement_duration_seconds s,
       stale_turn_threshold = 5 \<rparr>"

text \<open>The values the comments of \<^verbatim>\<open>__init__\<close> give for the settings.\<close>

definition default_settings :: settings where
  "default_settings =
     \<lparr> cautious_confidence_threshold = 0.60,
       aggressive_confidence_threshold = 0.85,
       max_engagement_turns_cautious = 10,
       max_engagement_turns_aggressive = 25,
       max_engagement_duration_seconds = 600 \<rparr>"

definition get_engagement_mode :: "engagement_policy \<Rightarrow> real \<Rightarrow> engagement_mode" where
  "get_engagement_mode pol confidence =
     (if confidence \<ge> aggressive_threshold pol then AGGRESSIVE
      else if confidence \<ge> cautious_threshold pol then CAUTIOUS
      else NONE)"

text \<open>
  The local variable \<^verbatim>\<open>max_turns\<close>, computed by the same expression at the head of
  \<^verbatim>\<open>should_continue\<close> and of \<^verbatim>\<open>get_exit_reason\<close>.
\<close>

definition max_turns :: "engagement_policy \<Rightarrow> engagement_state \<Rightarrow> int" where
  "max_turns pol st =
     (if mode st = AGGRESSIVE then max_turns_aggressive pol else max_turns_cautious pol)"

definition should_continue :: "engagement_policy \<Rightarrow> engagement_state \<Rightarrow> bool" where
  "should_continue pol st =
     (if turn_count st \<ge> max_turns pol st then False
      else if duration_seconds st \<ge> max_duration_seconds pol then False
      else if intelligence_complete st then False
      else if scammer_suspicious st then False
      else if turns_since_new_info st \<ge> stale_turn_threshold pol then False
      else True)"

definition get_exit_reason :: "engagement_policy \<Rightarrow> engagement_state \<Rightarrow> string option" where
  "get_exit_reason pol st =
     (if turn_count st \<ge> max_turns pol st then
        Some (''Max turns reached ('' @ str_int (max_turns pol st) @ '')'')
      else if duration_seconds st \<ge> max_duration_seconds pol then
        Some (''Max duration exceeded ('' @ str_int (max_duration_seconds pol) @ ''s)'')
      else if intelligence_complete st then
        Some ''Intelligence extraction complete''
      else if scammer_suspicious st then
        Some ''Scammer became suspicious''
      else if turns_since_new_info st \<ge> stale_turn_threshold pol then
        Some (''No new information in '' @ str_int (stale_turn_threshold pol) @ '' turns'')
      else None)"

text \<open>The ordering none < cautious < aggressive of the modes, as a rank.\<close>

fun mode_rank :: "engagement_mode \<Rightarrow> nat" where
  "mode_rank NONE = 0"
| "mode_rank CAUTIOUS = 1"
| "mode_rank AGGRESSIVE = 2"

section \<open>Persona and persona manager (persona.py)\<close>

datatype persona_trait = TRUSTING | WORRIED | CONFUSED | COOPERATIVE | TECH_NAIVE

datatype emotional_state = CALM | ANXIOUS | PANICKED | RELIEVED | SUSPICIOUS

text \<open>The values of \<^verbatim>\<open>mentioned_details\<close> have the type \<^verbatim>\<open>Any\<close>; no code writes one.\<close>

typedecl py_any

record persona =
  traits :: "persona_trait list"
  emotional_state :: emotional_state
  engagement_turn :: int
  extracted_info_count :: int
  claimed_issues :: "string list"
  mentioned_details :: "(string \<times> py_any) list"

text \<open>\<^verbatim>\<open>Persona()\<close>: the field defaults of the dataclass.\<close>

definition Persona_init :: persona where
  "Persona_init =
     \<lparr> traits = [TRUSTING, WORRIED, TECH_NAIVE],
       emotional_state = CALM,
       engagement_turn = 0,
       extracted_info_count = 0,
       claimed_issues = [],
       mentioned_details = [] \<rparr>"

definition update_emotional_state :: "persona \<Rightarrow> real \<Rightarrow> persona" where
  "update_emotional_state p scam_intensity =
     (if scam_intensity > 0.8 then p\<lparr>emotional_state := PANICKED\<rparr>
      else if scam_intensity > 0.5 then p\<lparr>emotional_state := ANXIOUS\<rparr>
      else p\<lparr>emotional_state := CALM\<rparr>)"

fun emotional_modifier_of :: "emotional_state \<Rightarrow> string" where
  "emotional_modifier_of CALM = ''''"
| "emotional_modifier_of ANXIOUS = ''I'm getting worried... ''"
| "emotional_modifier_of PANICKED = ''Oh god, please help! ''"
| "emotional_modifier_of RELIEVED = ''Thank goodness... ''"
| "emotional_modifier_of SUSPICIOUS = ''Hmm, ''"

definition get_emotional_modifier :: "persona \<Rightarrow> string" where
  "get_emotional_modifier p = emotional_modifier_of (emotional_state p)"

text \<open>The local variable \<^verbatim>\<open>probability\<close> of \<^verbatim>\<open>should_ask_extraction_question\<close>.\<close>

definition probability :: "persona \<Rightarrow> double" where
  "probability p =
     (let base_probability = float_literal 4 10;
          turn_bonus = py_min (float_literal 3 10)
                         (float_mul (float_of_int (engagement_turn p)) (float_literal 1 10));
          extraction_penalty =
            float_mul (float_of_int (extracted_info_count p)) (float_literal 15 100)
      in float_sub (float_add base_probability turn_bonus) extraction_penalty)"

text \<open>\<open>u\<close> is the value \<^verbatim>\<open>random.random()\<close> returns, a double in \<open>[0, 1)\<close>.\<close>

definition should_ask_extraction_question :: "persona \<Rightarrow> double \<Rightarrow> bool" where
  "should_ask_extraction_question p u = (double_val u < double_val (probability p))"

definition record_extraction :: "persona \<Rightarrow> persona" where
  "record_extraction p = p\<lparr>extracted_info_count := extracted_info_count p + 1\<rparr>"

definition increment_turn :: "persona \<Rightarrow> persona" where
  "increment_turn p = p\<lparr>engagement_turn := engagement_turn p + 1\<rparr>"

record persona_manager =
  personas :: "string \<rightharpoonup> persona"

definition PersonaManager_init :: persona_manager where
  "PersonaManager_init = \<lparr> personas = Map.empty \<rparr>"

definition get_or_create_persona :: "persona_manager \<Rightarrow> string \<Rightarrow> persona_manager \<times> persona" where
  "get_or_create_persona m conversation_id =
     (case personas m conversation_id of
        None \<Rightarrow> (m\<lparr>personas := (personas m)(conversation_id \<mapsto> Persona_init)\<rparr>, Persona_init)
      | Some p \<Rightarrow> (m, p))"

definition update_persona ::
  "persona_manager \<Rightarrow> string \<Rightarrow> real \<Rightarrow> bool \<Rightarrow> persona_manager \<times> persona" where
  "update_persona m conversation_id scam_intensity extracted_something =
     (let (m1, p0) = get_or_create_persona m conversation_id;
          p1 = increment_turn p0;
          p2 = update_emotional_state p1 scam_intensity;
          p3 = (if extracted_something then record_extraction p2 else p2)
      in (m1\<lparr>personas := (personas m1)(conversation_id \<mapsto> p3)\<rparr>, p3))"

definition clear_persona :: "persona_manager \<Rightarrow> string \<Rightarrow> persona_manager" where
  "clear_persona m conversation_id = m\<lparr>personas := (personas m)(conversation_id := None)\<rparr>"

section \<open>Honeypot agent (honeypot_agent.py, prompts.py)\<close>

definition EXTRACTION_QUESTIONS :: "string list" where
  "EXTRACTION_QUESTIONS =
     [''Which account number should I use for the transfer?'',
      ''What's your UPI ID? I'll send the amount right now.'',
      ''Can you send me the link again? It's not working on my phone.'',
      ''What number should I call if I have problems?'',
      ''Should I share my account details for verification?'',
      ''Where exactly do I need to click? Can you share the website?'']"

definition fallback_responses :: "string list" where
  "fallback_responses =
     [''I'm sorry, I'm a bit confused. Can you explain that again?'',
      ''My phone is acting up. What do I need to do exactly?'',
      ''I didn't understand. Can you tell me step by step?'',
      ''Okay, but what should I do first? I'm worried.'']"

text \<open>
  The draws one turn may consume: \<open>coin\<close> is the value of \<^verbatim>\<open>random.random()\<close>,
  \<open>question_pick\<close> and \<open>fallback_pick\<close> drive the two calls of \<^verbatim>\<open>random.choice\<close>
  (at most one fallback reply is chosen per turn).
\<close>

record draws =
  coin :: double
  question_pick :: nat
  fallback_pick :: nat

definition get_fallback_response :: "draws \<Rightarrow> string" where
  "get_fallback_response rnd = choice fallback_responses (fallback_pick rnd)"

text \<open>
  What one pass of the loop body observes of \<^verbatim>\<open>generate_content\<close>: the call (or the
  read of \<^verbatim>\<open>response.text\<close>) raises, or \<^verbatim>\<open>response.text\<close> is \<^verbatim>\<open>None\<close> or a string.
\<close>

datatype call_outcome = Raises | Returns "string option"

text \<open>\<^verbatim>\<open>response_text and len(response_text.strip()) > 0\<close>\<close>

fun is_valid_response :: "string option \<Rightarrow> bool" where
  "is_valid_response None = False"
| "is_valid_response (Some s) = (s \<noteq> [] \<and> length (strip s) > 0)"

text \<open>
  The loop over \<^verbatim>\<open>models_to_try\<close>: the second argument is \<^verbatim>\<open>response_text\<close> before the
  pass. A raise leaves it as it is and goes on; a valid text ends the loop.
\<close>

fun try_models :: "call_outcome list \<Rightarrow> string option \<Rightarrow> string option" where
  "try_models [] response_text = response_text"
| "try_models (Raises # rest) response_text = try_models rest response_text"
| "try_models (Returns t # rest) response_text =
     (if is_valid_response t then t else try_models rest t)"

text \<open>\<^verbatim>\<open>any(q in response_text.lower() for q in ["account", "upi", "link", "number"])\<close>\<close>

definition mentions_target :: "string \<Rightarrow> bool" where
  "mentions_target response_text =
     list_ex (\<lambda>q. sublist q (lower response_text)) [''account'', ''upi'', ''link'', ''number'']"

text \<open>The part of \<^verbatim>\<open>_generate_response\<close> after the loop, for a non-empty text.\<close>

definition post_process :: "persona \<Rightarrow> draws \<Rightarrow> string \<Rightarrow> string \<times> persona" where
  "post_process p rnd response_text =
     (let t1 = (if engagement_turn p > 0 then
                  (let modifier = get_emotional_modifier p
                   in if modifier \<noteq> [] \<and> \<not> prefix modifier response_text
                      then modifier @ response_text else response_text)
                else response_text)
      in if should_ask_extraction_question p (coin rnd) then
           (let question = choice EXTRACTION_QUESTIONS (question_pick rnd)
            in if \<not> mentions_target t1
               then (rstrip_dot t1 @ '' '' @ question, record_extraction p)
               else (t1, p))
         else (t1, p))"

text \<open>
  \<^verbatim>\<open>_generate_response\<close>: \<open>primary\<close> and \<open>fallback\<close> are the outcomes of the calls to the
  two models. The result is the reply and the persona, which the method may have mutated.
\<close>

definition generate_response ::
  "persona \<Rightarrow> call_outcome \<Rightarrow> call_outcome \<Rightarrow> draws \<Rightarrow> string \<times> persona" where
  "generate_response p primary fallback rnd =
     (case try_models [primary, fallback] None of
        None \<Rightarrow> (get_fallback_response rnd, p)
      | Some response_text \<Rightarrow>
          if response_text = [] then (get_fallback_response rnd, p)
          else post_process p rnd response_text)"

datatype py_exception = PyException string

text \<open>\<^verbatim>\<open>int(x)\<close> of a float: truncation towards zero.\<close>

definition int_of_float :: "real \<Rightarrow> int" where
  "int_of_float x = (if x \<ge> 0 then \<lfloor>x\<rfloor> else \<lceil>x\<rceil>)"

text \<open>What a turn reads from its environment besides the random draws.\<close>

record environment =
  uuid4 :: string
  start_time :: real
  end_time :: real
  rng :: draws

text \<open>
  \<^verbatim>\<open>EngagementResult\<close> without its \<^verbatim>\<open>notes\<close>; the fields carry the prefix \<open>res_\<close> because
  three of them share a name with a field of the engagement state or a method of the policy.
\<close>

record engagement_result =
  res_response :: string
  res_duration_seconds :: int
  res_conversation_id :: string
  res_turn_number :: int
  res_engagement_mode :: engagement_mode
  res_should_continue :: bool
  res_exit_reason :: "string option"

text \<open>\<^verbatim>\<open>conversation_id or str(uuid.uuid4())\<close>\<close>

definition conv_id_of :: "string option \<Rightarrow> environment \<Rightarrow> string" where
  "conv_id_of conversation_id env =
     (case conversation_id of
        None \<Rightarrow> uuid4 env
      | Some s \<Rightarrow> if s = [] then uuid4 env else s)"

text \<open>
  The body of \<^verbatim>\<open>engage\<close> around the awaited \<^verbatim>\<open>self._generate_response(prompt, persona)\<close>,
  which is the argument \<open>gen\<close>: it returns the reply and the persona as it left it, or
  raises. The agent is its policy and its persona manager; of the detection result the
  body reads the confidence.
\<close>

definition engage_with ::
  "(persona \<Rightarrow> py_exception + string \<times> persona) \<Rightarrow> engagement_policy \<Rightarrow> persona_manager \<Rightarrow>
   real \<Rightarrow> string option \<Rightarrow> environment \<Rightarrow> engagement_result \<times> persona_manager" where
  "engage_with gen pol m confidence conversation_id env =
     (let conv_id = conv_id_of conversation_id env;
          engagement_mode = get_engagement_mode pol confidence;
          (m1, persona) = update_persona m conv_id confidence False;
          (response, persona') =
             (case gen persona of
                Inr r \<Rightarrow> r
              | Inl e \<Rightarrow> (get_fallback_response (rng env), persona));
          m2 = m1\<lparr>personas := (personas m1)(conv_id \<mapsto> persona')\<rparr>;
          duration = int_of_float (end_time env - start_time env);
          state = \<lparr> mode = engagement_mode,
                    turn_count = engagement_turn persona',
                    duration_seconds = duration,
                    intelligence_complete = False,
                    scammer_suspicious = False,
                    turns_since_new_info = 0 \<rparr>;
          continue = should_continue pol state;
          exit_reason = (if \<not> continue then get_exit_reason pol state else None)
      in (\<lparr> res_response = response,
            res_duration_seconds = duration,
            res_conversation_id = conv_id,
            res_turn_number = engagement_turn persona',
            res_engagement_mode = engagement_mode,
            res_should_continue = continue,
            res_exit_reason = exit_reason \<rparr>, m2))"

text \<open>\<^verbatim>\<open>engage\<close> with the method \<^verbatim>\<open>_generate_response\<close> of the class, which catches every raise
  of the model calls itself.\<close>

definition engage ::
  "engagement_policy \<Rightarrow> persona_manager \<Rightarrow> real \<Rightarrow> string option \<Rightarrow>
   call_outcome \<Rightarrow> call_outcome \<Rightarrow> environment \<Rightarrow> engagement_result \<times> persona_manager" where
  "engage pol m confidence conversation_id primary fallback env =
     engage_with (\<lambda>p. Inr (generate_response p primary fallback (rng env)))
       pol m confidence conversation_id env"

definition end_conversation :: "persona_manager \<Rightarrow> string \<Rightarrow> persona_manager" where
  "end_conversation m conversation_id = clear_persona m conversation_id"

text \<open>A model call that yields no usable text: it raises, or its text is missing or empty.\<close>

fun no_text :: "call_outcome \<Rightarrow> bool" where
  "no_text Raises = True"
| "no_text (Returns None) = True"
| "no_text (Returns (Some s)) = (s = [])"


section \<open>Theorems: engagement policy\<close>

text \<open>
  C1. For every engagement state, \<open>should_continue\<close> is false exactly when one of the five
  stop conditions holds: the turn count has reached the turn limit, the duration has
  reached the duration limit, intelligence is complete, the scammer is suspicious, or
  the turns without new information have reached the stale threshold. The turn limit is
  the aggressive one in aggressive mode and the cautious one otherwise, so also in mode
  none.
\<close>

theorem should_continue_iff:
  "(\<not> should_continue pol st) =
     (turn_count st \<ge> (if mode st = AGGRESSIVE then max_turns_aggressive pol
                        else max_turns_cautious pol)
      \<or> duration_seconds st \<ge> max_duration_seconds pol
      \<or> intelligence_complete st
      \<or> scammer_suspicious st
      \<or> turns_since_new_info st \<ge> stale_turn_threshold pol)
   \<and> should_continue pol (st\<lparr>mode := NONE\<rparr>) = should_continue pol (st\<lparr>mode := CAUTIOUS\<rparr>)"
  by (simp add: should_continue_def max_turns_def)

theorem should_continue_iff_witness:
  "\<not> should_continue (EngagementPolicy_init default_settings)
       \<lparr>mode = NONE, turn_count = 10, duration_seconds = 0, intelligence_complete = False,
        scammer_suspicious = False, turns_since_new_info = 0\<rparr>
   \<and> should_continue (EngagementPolicy_init default_settings)
       \<lparr>mode = AGGRESSIVE, turn_count = 10, duration_seconds = 0, intelligence_complete = False,
        scammer_suspicious = False, turns_since_new_info = 0\<rparr>"
  using should_continue_iff [of "EngagementPolicy_init default_settings"
       "\<lparr>mode = NONE, turn_count = 10, duration_seconds = 0, intelligence_complete = False,
        scammer_suspicious = False, turns_since_new_info = 0\<rparr>"]
    should_continue_iff [of "EngagementPolicy_init default_settings"
       "\<lparr>mode = AGGRESSIVE, turn_count = 10, duration_seconds = 0, intelligence_complete = False,
        scammer_suspicious = False, turns_since_new_info = 0\<rparr>"]
  by (simp add: EngagementPolicy_init_def default_settings_def)

text \<open>
  C3. The engagement mode is monotone in the confidence under the ordering
  none < cautious < aggressive, and the two thresholds belong to the higher tier: the
  cautious threshold maps to cautious when it lies below the aggressive threshold, and
  the aggressive threshold maps to aggressive.
\<close>

theorem get_engagement_mode_monotone:
  "(c1 \<le> c2 \<longrightarrow>
      mode_rank (get_engagement_mode pol c1) \<le> mode_rank (get_engagement_mode pol c2))
   \<and> (cautious_threshold pol < aggressive_threshold pol \<longrightarrow>
        get_engagement_mode pol (cautious_threshold pol) = CAUTIOUS)
   \<and> get_engagement_mode pol (aggressive_threshold pol) = AGGRESSIVE"
  by (simp add: get_engagement_mode_def)

theorem get_engagement_mode_monotone_witness:
  "(0.7::real) \<le> 0.9
   \<and> mode_rank (get_engagement_mode (EngagementPolicy_init default_settings) 0.7) = 1
   \<and> mode_rank (get_engagement_mode (EngagementPolicy_init default_settings) 0.9) = 2
   \<and> cautious_threshold (EngagementPolicy_init default_settings)
        < aggressive_threshold (EngagementPolicy_init default_settings)
   \<and> get_engagement_mode (EngagementPolicy_init default_settings) 0.6 = CAUTIOUS
   \<and> get_engagement_mode (EngagementPolicy_init default_settings) 0.85 = AGGRESSIVE"
  using get_engagement_mode_monotone [of "0.7" "0.9" "EngagementPolicy_init default_settings"]
  by (simp add: get_engagement_mode_def EngagementPolicy_init_def default_settings_def)

section \<open>Theorems: binary64 arithmetic\<close>

lemmas binary64_defs = probability_def float_literal_def py_min_def float_of_int_def
  round53_def round_half_even_def bit_length.simps pow2_def

text \<open>
  The four literals of \<^verbatim>\<open>should_ask_extraction_question\<close> as doubles: \<^verbatim>\<open>(0.4).hex()\<close> is
  \<^verbatim>\<open>0x1.999999999999ap-2\<close>, \<^verbatim>\<open>(0.3).hex()\<close> is \<^verbatim>\<open>0x1.3333333333333p-2\<close>, and 0.1 and 0.15
  have the same mantissas two and one binary places lower.
\<close>

lemma float_literal_values:
  "float_literal 4 10 = Double 7205759403792794 (- 54)"
  "float_literal 3 10 = Double 5404319552844595 (- 54)"
  "float_literal 1 10 = Double 7205759403792794 (- 56)"
  "float_literal 15 100 = Double 5404319552844595 (- 55)"
  by (simp_all add: binary64_defs Let_def)

text \<open>
  The threshold \<^verbatim>\<open>probability\<close> at some personas, as the code computes it: 0.4 at turn 0
  and count 0, 0.7 at turn 10 and count 0, -0.04999999999999993 at turn 0 and count 3,
  0.10000000000000003 at turn 0 and count 2, 0.5499999999999999 at turn 3 and count 1.
\<close>

lemma probability_values:
  "double_val (probability Persona_init) = 3602879701896397 / 9007199254740992"
  "double_val (probability (Persona_init\<lparr>engagement_turn := 10\<rparr>))
     = 3152519739159347 / 4503599627370496"
  "double_val (probability (Persona_init\<lparr>extracted_info_count := 3\<rparr>))
     = - 450359962737049 / 9007199254740992"
  "double_val (probability (Persona_init\<lparr>extracted_info_count := 2\<rparr>))
     = 1801439850948199 / 18014398509481984"
  "double_val (probability (Persona_init\<lparr>engagement_turn := 3, extracted_info_count := 1\<rparr>))
     = 4953959590107545 / 9007199254740992"
  by (simp_all add: binary64_defs Persona_init_def Let_def)

text \<open>
  At turn 0 and count 2 the draw 0.1 is below the threshold; at turn 3 and count 1 the draw
  0.5499999999999999 is the threshold itself and is not below it.
\<close>

lemma should_ask_extraction_question_values:
  "should_ask_extraction_question (Persona_init\<lparr>extracted_info_count := 2\<rparr>) (float_literal 1 10)"
  "\<not> should_ask_extraction_question
       (Persona_init\<lparr>engagement_turn := 3, extracted_info_count := 1\<rparr>)
       (float_literal 5499999999999999 10000000000000000)"
  by (simp_all add: should_ask_extraction_question_def binary64_defs Persona_init_def Let_def)

section \<open>Theorems: persona\<close>



text \<open>
  C9. \<open>clear_persona\<close> removes the persona of the conversation, changes nothing when the
  conversation has none (and never touches another conversation), and a
  \<open>get_or_create_persona\<close> after it returns and stores a persona with the default
  fields: traits trusting, worried, tech-naive, state calm, turn 0, extraction count 0,
  no claimed issues and no mentioned details.
\<close>

theorem clear_persona_resets:
  "personas (clear_persona m cid) cid = None
   \<and> (personas m cid = None \<longrightarrow> clear_persona m cid = m)
   \<and> (other \<noteq> cid \<longrightarrow> personas (clear_persona m cid) other = personas m other)
   \<and> traits (snd (get_or_create_persona (clear_persona m cid) cid)) = [TRUSTING, WORRIED, TECH_NAIVE]
   \<and> emotional_state (snd (get_or_create_persona (clear_persona m cid) cid)) = CALM
   \<and> engagement_turn (snd (get_or_create_persona (clear_persona m cid) cid)) = 0
   \<and> extracted_info_count (snd (get_or_create_persona (clear_persona m cid) cid)) = 0
   \<and> claimed_issues (snd (get_or_create_persona (clear_persona m cid) cid)) = []
   \<and> mentioned_details (snd (get_or_create_persona (clear_persona m cid) cid)) = []
   \<and> personas (fst (get_or_create_persona (clear_persona m cid) cid)) cid
       = Some (snd (get_or_create_persona (clear_persona m cid) cid))"
  by (simp add: clear_persona_def get_or_create_persona_def Persona_init_def fun_upd_idem)

theorem clear_persona_resets_witness:
  "personas (clear_persona (fst (update_persona PersonaManager_init ''c1'' 0.9 True)) ''c1'') ''c1'' = None
   \<and> personas PersonaManager_init ''c2'' = None
   \<and> clear_persona PersonaManager_init ''c2'' = PersonaManager_init
   \<and> ''c2'' \<noteq> ''c1''
   \<and> personas (clear_persona (fst (update_persona PersonaManager_init ''c1'' 0.9 True)) ''c2'') ''c1''
       = Some (Persona_init\<lparr>emotional_state := PANICKED, engagement_turn := 1, extracted_info_count := 1\<rparr>)
   \<and> snd (get_or_create_persona
         (clear_persona (fst (update_persona PersonaManager_init ''c1'' 0.9 True)) ''c1'') ''c1'')
       = Persona_init"
  using clear_persona_resets [of "fst (update_persona PersonaManager_init ''c1'' 0.9 True)" "''c1''" "''c2''"]
    clear_persona_resets [of PersonaManager_init "''c2''" "''c1''"]
    clear_persona_resets [of "fst (update_persona PersonaManager_init ''c1'' 0.9 True)" "''c2''" "''c1''"]
  by (simp add: update_persona_def get_or_create_persona_def increment_turn_def
      update_emotional_state_def record_extraction_def PersonaManager_init_def Persona_init_def
      clear_persona_def Let_def)

text \<open>
  C10. \<open>update_persona\<close> leaves the traits, the claimed issues and the mentioned details
  of the persona as they were (so does \<open>record_extraction\<close>), and
  \<open>get_or_create_persona\<close> on a conversation that has a persona returns that persona and
  the manager unchanged.
\<close>

theorem update_persona_frame:
  "traits (snd (update_persona m cid x ext)) = traits (snd (get_or_create_persona m cid))
   \<and> claimed_issues (snd (update_persona m cid x ext))
       = claimed_issues (snd (get_or_create_persona m cid))
   \<and> mentioned_details (snd (update_persona m cid x ext))
       = mentioned_details (snd (get_or_create_persona m cid))
   \<and> traits (record_extraction p) = traits p
   \<and> claimed_issues (record_extraction p) = claimed_issues p
   \<and> mentioned_details (record_extraction p) = mentioned_details p
   \<and> (personas m cid = Some p \<longrightarrow> get_or_create_persona m cid = (m, p))"
  by (simp add: update_persona_def get_or_create_persona_def increment_turn_def
      update_emotional_state_def record_extraction_def Let_def split: option.split)

theorem update_persona_frame_witness:
  "personas (fst (update_persona PersonaManager_init ''c1'' 0.9 True)) ''c1''
     = Some (Persona_init\<lparr>emotional_state := PANICKED, engagement_turn := 1, extracted_info_count := 1\<rparr>)
   \<and> get_or_create_persona (fst (update_persona PersonaManager_init ''c1'' 0.9 True)) ''c1''
     = (fst (update_persona PersonaManager_init ''c1'' 0.9 True),
        Persona_init\<lparr>emotional_state := PANICKED, engagement_turn := 1, extracted_info_count := 1\<rparr>)
   \<and> traits (snd (update_persona (fst (update_persona PersonaManager_init ''c1'' 0.9 True)) ''c1'' 0.3 False))
     = [TRUSTING, WORRIED, TECH_NAIVE]"
  using update_persona_frame [of "fst (update_persona PersonaManager_init ''c1'' 0.9 True)" "''c1''" "0.3" False
      "Persona_init\<lparr>emotional_state := PANICKED, engagement_turn := 1, extracted_info_count := 1\<rparr>"]
  by (simp add: update_persona_def get_or_create_persona_def increment_turn_def
      update_emotional_state_def record_extraction_def PersonaManager_init_def Persona_init_def
      Let_def)

section \<open>Theorems: exit reason\<close>

text \<open>
  C2. \<open>get_exit_reason\<close> is \<open>None\<close> exactly when \<open>should_continue\<close> is true; otherwise
  it is the reason of the first stop condition that holds, in the order turn limit,
  duration limit, intelligence complete, scammer suspicious, stale. A state past the turn
  limit whose scammer is suspicious gets the turn-limit reason, not the suspicion reason.
  The result of \<open>engage\<close> carries an exit reason exactly when its continuation flag is
  false.
\<close>

theorem get_exit_reason_priority:
  "(get_exit_reason pol st = None) = should_continue pol st
   \<and> (turn_count st \<ge> max_turns pol st \<longrightarrow>
        get_exit_reason pol st = Some (''Max turns reached ('' @ str_int (max_turns pol st) @ '')''))
   \<and> (\<not> turn_count st \<ge> max_turns pol st \<and> duration_seconds st \<ge> max_duration_seconds pol \<longrightarrow>
        get_exit_reason pol st
          = Some (''Max duration exceeded ('' @ str_int (max_duration_seconds pol) @ ''s)''))
   \<and> (\<not> turn_count st \<ge> max_turns pol st \<and> \<not> duration_seconds st \<ge> max_duration_seconds pol
        \<and> intelligence_complete st \<longrightarrow>
        get_exit_reason pol st = Some ''Intelligence extraction complete'')
   \<and> (\<not> turn_count st \<ge> max_turns pol st \<and> \<not> duration_seconds st \<ge> max_duration_seconds pol
        \<and> \<not> intelligence_complete st \<and> scammer_suspicious st \<longrightarrow>
        get_exit_reason pol st = Some ''Scammer became suspicious'')
   \<and> (\<not> turn_count st \<ge> max_turns pol st \<and> \<not> duration_seconds st \<ge> max_duration_seconds pol
        \<and> \<not> intelligence_complete st \<and> \<not> scammer_suspicious st
        \<and> turns_since_new_info st \<ge> stale_turn_threshold pol \<longrightarrow>
        get_exit_reason pol st
          = Some (''No new information in '' @ str_int (stale_turn_threshold pol) @ '' turns''))
   \<and> (turn_count st \<ge> max_turns pol st \<and> scammer_suspicious st \<longrightarrow>
        get_exit_reason pol st \<noteq> Some ''Scammer became suspicious'')
   \<and> (res_exit_reason (fst (engage pol m confidence cid primary fallback env)) \<noteq> None)
       = (\<not> res_should_continue (fst (engage pol m confidence cid primary fallback env)))"
proof -
  have none: "(\<exists>y. get_exit_reason pol st = Some y) = (\<not> should_continue pol st)" for st
    by (simp add: get_exit_reason_def should_continue_def)
  have branches: "?thesis = ((res_exit_reason (fst (engage pol m confidence cid primary fallback env)) \<noteq> None)
       = (\<not> res_should_continue (fst (engage pol m confidence cid primary fallback env))))"
    by (simp add: get_exit_reason_def should_continue_def)
  have "(res_exit_reason (fst (engage pol m confidence cid primary fallback env)) \<noteq> None)
       = (\<not> res_should_continue (fst (engage pol m confidence cid primary fallback env)))"
    using none
    by (simp add: engage_def engage_with_def Let_def split: prod.split)
  with branches show ?thesis by simp
qed

theorem get_exit_reason_priority_witness:
  "get_exit_reason (EngagementPolicy_init default_settings)
       \<lparr>mode = AGGRESSIVE, turn_count = 25, duration_seconds = 0, intelligence_complete = False,
        scammer_suspicious = True, turns_since_new_info = 0\<rparr>
     = Some ''Max turns reached (25)''
   \<and> get_exit_reason (EngagementPolicy_init default_settings)
       \<lparr>mode = NONE, turn_count = 3, duration_seconds = 600, intelligence_complete = True,
        scammer_suspicious = False, turns_since_new_info = 0\<rparr>
     = Some ''Max duration exceeded (600s)''
   \<and> get_exit_reason (EngagementPolicy_init default_settings)
       \<lparr>mode = CAUTIOUS, turn_count = 3, duration_seconds = 20, intelligence_complete = True,
        scammer_suspicious = True, turns_since_new_info = 0\<rparr>
     = Some ''Intelligence extraction complete''
   \<and> get_exit_reason (EngagementPolicy_init default_settings)
       \<lparr>mode = CAUTIOUS, turn_count = 3, duration_seconds = 20, intelligence_complete = False,
        scammer_suspicious = True, turns_since_new_info = 7\<rparr>
     = Some ''Scammer became suspicious''
   \<and> get_exit_reason (EngagementPolicy_init default_settings)
       \<lparr>mode = CAUTIOUS, turn_count = 3, duration_seconds = 20, intelligence_complete = False,
        scammer_suspicious = False, turns_since_new_info = 5\<rparr>
     = Some ''No new information in 5 turns''"
  using get_exit_reason_priority [of "EngagementPolicy_init default_settings"
       "\<lparr>mode = AGGRESSIVE, turn_count = 25, duration_seconds = 0, intelligence_complete = False,
        scammer_suspicious = True, turns_since_new_info = 0\<rparr>"]
    get_exit_reason_priority [of "EngagementPolicy_init default_settings"
       "\<lparr>mode = NONE, turn_count = 3, duration_seconds = 600, intelligence_complete = True,
        scammer_suspicious = False, turns_since_new_info = 0\<rparr>"]
    get_exit_reason_priority [of "EngagementPolicy_init default_settings"
       "\<lparr>mode = CAUTIOUS, turn_count = 3, duration_seconds = 20, intelligence_complete = True,
        scammer_suspicious = True, turns_since_new_info = 0\<rparr>"]
    get_exit_reason_priority [of "EngagementPolicy_init default_settings"
       "\<lparr>mode = CAUTIOUS, turn_count = 3, duration_seconds = 20, intelligence_complete = False,
        scammer_suspicious = True, turns_since_new_info = 7\<rparr>"]
    get_exit_reason_priority [of "EngagementPolicy_init default_settings"
       "\<lparr>mode = CAUTIOUS, turn_count = 3, duration_seconds = 20, intelligence_complete = False,
        scammer_suspicious = False, turns_since_new_info = 5\<rparr>"]
  by (simp add: EngagementPolicy_init_def default_settings_def max_turns_def str_int_def
      str_nat.simps digit_char_def)

section \<open>Theorems: the agent\<close>

lemma choice_mem: "xs \<noteq> [] \<Longrightarrow> choice xs r \<in> set xs"
  by (simp add: choice_def)

lemma choice_fallback_mem: "choice fallback_responses r \<in> set fallback_responses"
  by (rule choice_mem) (simp add: fallback_responses_def)

lemma get_fallback_response_mem: "get_fallback_response rnd \<in> set fallback_responses"
  by (simp add: get_fallback_response_def choice_fallback_mem)

lemma try_models_no_text:
  "no_text primary \<Longrightarrow> no_text fallback \<Longrightarrow>
   try_models [primary, fallback] None = None \<or> try_models [primary, fallback] None = Some []"
  by (cases primary rule: no_text.cases; cases fallback rule: no_text.cases) auto

lemma generate_response_no_text:
  "no_text primary \<Longrightarrow> no_text fallback \<Longrightarrow>
   generate_response p primary fallback rnd = (get_fallback_response rnd, p)"
  using try_models_no_text [of primary fallback]
  by (auto simp: generate_response_def)

text \<open>
  Where the fallback guarantee holds: when each of the two model calls raises or returns a
  missing text or the empty string, and also when the generation step raises as a whole,
  the reply of \<open>engage\<close> is one of the four fallback replies, none of which is empty.
\<close>

lemma fallback_on_no_text:
  "(no_text primary \<and> no_text fallback \<longrightarrow>
      res_response (fst (engage pol m confidence cid primary fallback env)) \<in> set fallback_responses)
   \<and> (gen (snd (update_persona m (conv_id_of cid env) confidence False)) = Inl e \<longrightarrow>
      res_response (fst (engage_with gen pol m confidence cid env)) \<in> set fallback_responses)
   \<and> length fallback_responses = 4
   \<and> [] \<notin> set fallback_responses"
proof -
  have a: "res_response (fst (engage pol m confidence cid primary fallback env)) \<in> set fallback_responses"
    if "no_text primary" "no_text fallback"
    using that get_fallback_response_mem [of "rng env"]
    by (simp add: engage_def engage_with_def generate_response_no_text Let_def split: prod.split)
  have b: "res_response (fst (engage_with gen pol m confidence cid env)) \<in> set fallback_responses"
    if "gen (snd (update_persona m (conv_id_of cid env) confidence False)) = Inl e"
    using that get_fallback_response_mem [of "rng env"]
    by (auto simp: engage_with_def Let_def split: prod.split)
  have c: "length fallback_responses = 4 \<and> [] \<notin> set fallback_responses"
    by (simp add: fallback_responses_def)
  from a b c show ?thesis by blast
qed

text \<open>
  C7. The claim fails on a blank text. The loop over the models rejects a text of white
  space only as an empty response (\<open>is_valid_response\<close>), but the test after the loop
  only catches a missing text and the empty string. In a first turn at confidence 0.3
  with both models returning one space and the draw 0.9, the reply of \<open>engage\<close> is that
  space: it is none of the four fallback replies, and nothing is left of it once stripped.
\<close>

theorem blank_text_is_not_replaced:
  "\<not> is_valid_response (Some '' '')
   \<and> try_models [Returns (Some '' ''), Returns (Some '' '')] None = Some '' ''
   \<and> res_response (fst (engage (EngagementPolicy_init default_settings) PersonaManager_init 0.3
         None (Returns (Some '' '')) (Returns (Some '' ''))
         \<lparr>uuid4 = ''id-1'', start_time = 100, end_time = 102,
          rng = \<lparr>coin = float_literal 9 10, question_pick = 0, fallback_pick = 0\<rparr>\<rparr>))
       = '' ''
   \<and> '' '' \<notin> set fallback_responses
   \<and> strip '' '' = []"
  by (simp add: engage_def engage_with_def generate_response_def post_process_def
      update_persona_def get_or_create_persona_def PersonaManager_init_def Persona_init_def
      increment_turn_def update_emotional_state_def get_emotional_modifier_def
      should_ask_extraction_question_def binary64_defs fallback_responses_def strip_def
      is_space_def Let_def)





lemma rstrip_dot_snoc:
  "rstrip_dot (s @ [c]) = (if c = CHR ''.'' then rstrip_dot s else s @ [c])"
  by (simp add: rstrip_dot_def)

lemma rstrip_dot_keeps_prefix:
  assumes "m \<noteq> []" and "last m \<noteq> CHR ''.''"
  shows "prefix m (rstrip_dot (m @ r))"
proof (induction r rule: rev_induct)
  case Nil
  from assms have "rstrip_dot (butlast m @ [last m]) = butlast m @ [last m]"
    by (simp only: rstrip_dot_snoc if_False)
  with assms show ?case by simp
next
  case (snoc c r)
  have "rstrip_dot (m @ r @ [c]) = (if c = CHR ''.'' then rstrip_dot (m @ r) else (m @ r) @ [c])"
    using rstrip_dot_snoc [of "m @ r" c] by simp
  with snoc show ?case by (simp split: if_splits)
qed

lemma modifier_last_not_dot:
  "get_emotional_modifier p \<noteq> [] \<Longrightarrow> last (get_emotional_modifier p) \<noteq> CHR ''.''"
  by (cases "emotional_state p") (simp_all add: get_emotional_modifier_def)

lemma modifier_prefix_kept:
  assumes "get_emotional_modifier p \<noteq> []" and "prefix (get_emotional_modifier p) t1"
  shows "prefix (get_emotional_modifier p) (rstrip_dot t1 @ rest)"
proof -
  from assms(2) obtain r where "t1 = get_emotional_modifier p @ r"
    by (auto simp: prefix_def)
  then have "prefix (get_emotional_modifier p) (rstrip_dot t1)"
    using rstrip_dot_keeps_prefix [OF assms(1) modifier_last_not_dot [OF assms(1)], of r] by simp
  then show ?thesis by (rule prefix_prefix)
qed

text \<open>The text after the modifier step of \<^verbatim>\<open>_generate_response\<close>, and what follows it.\<close>

lemma post_process_cases:
  "\<exists>t1. t1 = (if engagement_turn p > 0 \<and> get_emotional_modifier p \<noteq> []
                  \<and> \<not> prefix (get_emotional_modifier p) t
               then get_emotional_modifier p @ t else t)
     \<and> (post_process p rnd t = (t1, p)
         \<or> (\<not> mentions_target t1 \<and> should_ask_extraction_question p (coin rnd)
             \<and> post_process p rnd t
                 = (rstrip_dot t1 @ '' '' @ choice EXTRACTION_QUESTIONS (question_pick rnd),
                    record_extraction p)))"
  by (simp add: post_process_def Let_def)

lemma post_process_prefix:
  assumes "engagement_turn p > 0" and "get_emotional_modifier p \<noteq> []"
  shows "prefix (get_emotional_modifier p) (fst (post_process p rnd t))"
proof -
  let ?m = "get_emotional_modifier p"
  let ?t1 = "if \<not> prefix ?m t then ?m @ t else t"
  have p1: "prefix ?m ?t1" by simp
  have "fst (post_process p rnd t) = ?t1
      \<or> fst (post_process p rnd t)
          = rstrip_dot ?t1 @ '' '' @ choice EXTRACTION_QUESTIONS (question_pick rnd)"
    using assms by (simp add: post_process_def Let_def)
  then show ?thesis
    using p1 modifier_prefix_kept [OF assms(2) p1] by auto
qed

lemma engage_response:
  "res_response (fst (engage pol m confidence cid primary fallback env))
     = fst (generate_response (snd (update_persona m (conv_id_of cid env) confidence False))
             primary fallback (rng env))
   \<and> personas (snd (engage pol m confidence cid primary fallback env)) (conv_id_of cid env)
     = Some (snd (generate_response (snd (update_persona m (conv_id_of cid env) confidence False))
             primary fallback (rng env)))"
  by (simp add: engage_def engage_with_def Let_def split: prod.split)

text \<open>
  C6 (as amended). When the loop over the two models leaves a non-empty text, the reply is
  that text post-processed: if the turn of the persona is positive and its emotional
  modifier is non-empty, the modifier is prepended unless the text starts with it, so the
  reply starts with the modifier; an extraction question is appended, after the trailing
  periods are stripped and with the extraction recorded on the persona, only when the
  text so far contains none of "account", "upi", "link", "number" in any case, and
  otherwise text and persona stay as they are. When the loop leaves no text or the empty
  text, the reply is the fallback reply as it is, with no modifier and no question, and the
  persona is unchanged. \<open>engage\<close> returns the reply and stores the persona so obtained.
\<close>

theorem post_process_reply:
  "(try_models [primary, fallback] None = Some t \<and> t \<noteq> [] \<longrightarrow>
      (engagement_turn p > 0 \<and> get_emotional_modifier p \<noteq> [] \<longrightarrow>
         prefix (get_emotional_modifier p) (fst (generate_response p primary fallback rnd)))
      \<and> (\<exists>t1. t1 = (if engagement_turn p > 0 \<and> get_emotional_modifier p \<noteq> []
                          \<and> \<not> prefix (get_emotional_modifier p) t
                       then get_emotional_modifier p @ t else t)
            \<and> (generate_response p primary fallback rnd = (t1, p)
                \<or> (\<not> mentions_target t1 \<and> should_ask_extraction_question p (coin rnd)
                    \<and> generate_response p primary fallback rnd
                        = (rstrip_dot t1 @ '' '' @ choice EXTRACTION_QUESTIONS (question_pick rnd),
                           record_extraction p)))))
   \<and> (try_models [primary, fallback] None = None \<or> try_models [primary, fallback] None = Some [] \<longrightarrow>
        generate_response p primary fallback rnd = (get_fallback_response rnd, p))
   \<and> res_response (fst (engage pol m confidence cid primary fallback env))
       = fst (generate_response (snd (update_persona m (conv_id_of cid env) confidence False))
               primary fallback (rng env))
   \<and> personas (snd (engage pol m confidence cid primary fallback env)) (conv_id_of cid env)
       = Some (snd (generate_response (snd (update_persona m (conv_id_of cid env) confidence False))
               primary fallback (rng env)))"
proof -
  have a: "generate_response p primary fallback rnd = post_process p rnd t"
    if "try_models [primary, fallback] None = Some t" "t \<noteq> []"
    using that by (simp add: generate_response_def)
  have b: "generate_response p primary fallback rnd = (get_fallback_response rnd, p)"
    if "try_models [primary, fallback] None = None \<or> try_models [primary, fallback] None = Some []"
    using that by (auto simp: generate_response_def)
  show ?thesis
    using a b post_process_prefix [of p rnd t] post_process_cases [of p t rnd]
      engage_response [of pol m confidence cid primary fallback env]
    by auto
qed

theorem post_process_reply_witness:
  "try_models [Returns (Some ''Okay, I will do it...''), Raises] None = Some ''Okay, I will do it...''
   \<and> 0 < engagement_turn (Persona_init\<lparr>emotional_state := ANXIOUS, engagement_turn := 1\<rparr>)
   \<and> get_emotional_modifier (Persona_init\<lparr>emotional_state := ANXIOUS, engagement_turn := 1\<rparr>)
       = ''I'm getting worried... ''
   \<and> generate_response (Persona_init\<lparr>emotional_state := ANXIOUS, engagement_turn := 1\<rparr>)
         (Returns (Some ''Okay, I will do it...'')) Raises
         \<lparr>coin = float_literal 1 10, question_pick = 7, fallback_pick = 0\<rparr>
       = (''I'm getting worried... Okay, I will do it What's your UPI ID? I'll send the amount right now.'',
          Persona_init\<lparr>emotional_state := ANXIOUS, engagement_turn := 1, extracted_info_count := 1\<rparr>)
   \<and> try_models [Raises, Returns None] None = None
   \<and> generate_response (Persona_init\<lparr>emotional_state := ANXIOUS, engagement_turn := 1\<rparr>)
         Raises (Returns None) \<lparr>coin = float_literal 1 10, question_pick = 7, fallback_pick = 0\<rparr>
       = (''I'm sorry, I'm a bit confused. Can you explain that again?'',
          Persona_init\<lparr>emotional_state := ANXIOUS, engagement_turn := 1\<rparr>)"
proof -
  have concrete: ?thesis
    by (simp add: generate_response_def post_process_def Persona_init_def get_emotional_modifier_def
        should_ask_extraction_question_def binary64_defs mentions_target_def lower_def
        lower_char_def sublist_Cons_right rstrip_dot_def choice_def EXTRACTION_QUESTIONS_def
        record_extraction_def get_fallback_response_def fallback_responses_def strip_def
        is_space_def Let_def)
  from post_process_reply [of "Returns (Some ''Okay, I will do it...'')" Raises
      "''Okay, I will do it...''" "Persona_init\<lparr>emotional_state := ANXIOUS, engagement_turn := 1\<rparr>"
      "\<lparr>coin = float_literal 1 10, question_pick = 7, fallback_pick = 0\<rparr>"]
    post_process_reply [of Raises "Returns None" "[]"
      "Persona_init\<lparr>emotional_state := ANXIOUS, engagement_turn := 1\<rparr>"
      "\<lparr>coin = float_literal 1 10, question_pick = 7, fallback_pick = 0\<rparr>"]
    concrete
  show ?thesis by simp
qed

text \<open>
  C6 as stated fails where the fallback reply is substituted: in a first turn at
  confidence 0.7 with both model calls failing, the persona is anxious at turn 1, its
  modifier is non-empty, and the reply is the first fallback reply, which does not start
  with the modifier.
\<close>

theorem fallback_reply_not_post_processed:
  "try_models [Raises, Returns None] None = None
   \<and> personas (snd (engage (EngagementPolicy_init default_settings) PersonaManager_init 0.7
         (Some ''c1'') Raises (Returns None)
         \<lparr>uuid4 = ''id-1'', start_time = 100, end_time = 102,
          rng = \<lparr>coin = float_literal 1 10, question_pick = 7, fallback_pick = 0\<rparr>\<rparr>)) ''c1''
       = Some (Persona_init\<lparr>emotional_state := ANXIOUS, engagement_turn := 1\<rparr>)
   \<and> 0 < engagement_turn (Persona_init\<lparr>emotional_state := ANXIOUS, engagement_turn := 1\<rparr>)
   \<and> get_emotional_modifier (Persona_init\<lparr>emotional_state := ANXIOUS, engagement_turn := 1\<rparr>)
       = ''I'm getting worried... ''
   \<and> res_response (fst (engage (EngagementPolicy_init default_settings) PersonaManager_init 0.7
         (Some ''c1'') Raises (Returns None)
         \<lparr>uuid4 = ''id-1'', start_time = 100, end_time = 102,
          rng = \<lparr>coin = float_literal 1 10, question_pick = 7, fallback_pick = 0\<rparr>\<rparr>))
       = ''I'm sorry, I'm a bit confused. Can you explain that again?''
   \<and> \<not> prefix ''I'm getting worried... ''
         (res_response (fst (engage (EngagementPolicy_init default_settings) PersonaManager_init 0.7
           (Some ''c1'') Raises (Returns None)
           \<lparr>uuid4 = ''id-1'', start_time = 100, end_time = 102,
            rng = \<lparr>coin = float_literal 1 10, question_pick = 7, fallback_pick = 0\<rparr>\<rparr>)))"
  by (simp add: engage_def engage_with_def generate_response_def get_fallback_response_def
      choice_def fallback_responses_def update_persona_def get_or_create_persona_def
      PersonaManager_init_def Persona_init_def increment_turn_def update_emotional_state_def
      get_emotional_modifier_def conv_id_of_def Let_def)

end
